theory Spec2Isabelle
  imports Main "HOL-Library.Finite_Map"
begin

section \<open>JavaScript values\<close>

text \<open>
  Request bodies, stored records and response bodies are JSON values. An object is a
  finite map from property names to values: property order plays no part in any lookup
  of the handlers. Numbers are the integers; a double holds every integer of magnitude
  below \<open>2 ^ 53\<close> exactly, and that is the range in which the model and the program
  agree. Strings are sequences of code units below 256 (Latin-1), so \<open>CHR 0xE9\<close> is
  the letter e with an acute accent.
\<close>

datatype json =
    JNull
  | JBool bool
  | JNum int
  | JStr string
  | JArr "json list"
  | JObj "(string, json) fmap"

text \<open>
  The value of a numeric expression: \<open>NaN\<close>, an integer, or \<open>NonInt\<close>, which stands for
  any number that is no integer (a fraction or an infinity). The handlers compare such
  values only with the result of \<open>parseInt\<close>, which is \<open>NaN\<close> or an integer.
\<close>

datatype jsnum = NaN | Num int | NonInt

text \<open>What a handler can throw: a \<open>TypeError\<close> of the language, or a failed file write.\<close>

datatype exn = TypeError | IOError

subsection \<open>Characters and digits\<close>

definition is_space :: "char \<Rightarrow> bool" where
  \<comment> \<open>WhiteSpace and LineTerminator code units below 256: TAB, LF, VT, FF, CR, SP, NBSP\<close>
  "is_space c = (of_char c \<in> {9, 10, 11, 12, 13, 32, 160 :: nat})"

definition digit_of :: "char \<Rightarrow> nat option" where
  \<comment> \<open>the value of a digit or letter in a radix up to 36\<close>
  "digit_of c =
     (let n = (of_char c :: nat)
      in if 48 \<le> n \<and> n \<le> 57 then Some (n - 48)
         else if 97 \<le> n \<and> n \<le> 122 then Some (n - 87)
         else if 65 \<le> n \<and> n \<le> 90 then Some (n - 55)
         else None)"

definition is_digit :: "nat \<Rightarrow> char \<Rightarrow> bool" where
  "is_digit R c = (case digit_of c of None \<Rightarrow> False | Some d \<Rightarrow> d < R)"

definition digit_val :: "char \<Rightarrow> nat" where
  "digit_val c = (case digit_of c of None \<Rightarrow> 0 | Some d \<Rightarrow> d)"

definition digits_value :: "nat \<Rightarrow> string \<Rightarrow> nat" where
  "digits_value R Z = foldl (\<lambda>acc c. acc * R + digit_val c) 0 Z"

definition js_trim :: "string \<Rightarrow> string" where
  \<comment> \<open>\<open>String.prototype.trim\<close>\<close>
  "js_trim s = rev (dropWhile is_space (rev (dropWhile is_space s)))"

subsection \<open>\<open>parseInt\<close> with no radix argument\<close>

definition has_hex_prefix :: "string \<Rightarrow> bool" where
  "has_hex_prefix S = (take 2 S = ''0x'' \<or> take 2 S = ''0X'')"

definition parseInt :: "string \<Rightarrow> jsnum" where
  "parseInt str =
     (let S = dropWhile is_space str;
          sign = (if S \<noteq> [] \<and> hd S = CHR ''-'' then - 1 else 1 :: int);
          S1 = (if S \<noteq> [] \<and> (hd S = CHR ''+'' \<or> hd S = CHR ''-'') then tl S else S);
          R = (if has_hex_prefix S1 then 16 else 10);
          S2 = (if has_hex_prefix S1 then drop 2 S1 else S1);
          Z = takeWhile (is_digit R) S2
      in if Z = [] then NaN else Num (sign * int (digits_value R Z)))"

subsection \<open>Numbers to strings, strings to numbers\<close>

definition digit_char :: "nat \<Rightarrow> char" where
  "digit_char d = char_of (48 + d)"

fun dec_nat :: "nat \<Rightarrow> string" where
  "dec_nat n = (if n < 10 then [digit_char n] else dec_nat (n div 10) @ [digit_char (n mod 10)])"

declare dec_nat.simps [simp del]

definition num_to_string :: "int \<Rightarrow> string" where
  \<comment> \<open>\<open>Number::toString\<close> of an integer of magnitude below \<open>10 ^ 21\<close>: its decimal digits\<close>
  "num_to_string k = (if k < 0 then CHR ''-'' # dec_nat (nat (- k)) else dec_nat (nat k))"

definition strip_sign :: "string \<Rightarrow> int \<times> string" where
  "strip_sign s =
     (if s \<noteq> [] \<and> hd s = CHR ''-'' then (- 1, tl s)
      else if s \<noteq> [] \<and> hd s = CHR ''+'' then (1, tl s)
      else (1, s))"

definition radix_literal :: "nat \<Rightarrow> string \<Rightarrow> jsnum" where
  \<comment> \<open>the digits after the prefix of a NonDecimalIntegerLiteral\<close>
  "radix_literal R ds = (if ds \<noteq> [] \<and> list_all (is_digit R) ds then Num (int (digits_value R ds)) else NaN)"

definition exponent_part :: "string \<Rightarrow> int option" where
  \<comment> \<open>nothing, or \<open>e\<close>, a sign and digits; \<open>None\<close> when the text is neither\<close>
  "exponent_part r =
     (if r = [] then Some 0
      else if hd r = CHR ''e'' \<or> hd r = CHR ''E'' then
        (let (es, ds) = strip_sign (tl r)
         in if ds \<noteq> [] \<and> list_all (is_digit 10) ds then Some (es * int (digits_value 10 ds)) else None)
      else None)"

definition scaled :: "int \<Rightarrow> nat \<Rightarrow> int \<Rightarrow> jsnum" where
  \<comment> \<open>the number \<open>sg * m * 10 ^ scale\<close>\<close>
  "scaled sg m scale =
     (if 0 \<le> scale then Num (sg * int m * 10 ^ nat scale)
      else if m mod 10 ^ nat (- scale) = 0 then Num (sg * int (m div 10 ^ nat (- scale)))
      else NonInt)"

definition decimal_literal :: "string \<Rightarrow> jsnum" where
  \<comment> \<open>StrDecimalLiteral: sign, \<open>Infinity\<close> or digits with an optional fraction and exponent\<close>
  "decimal_literal t =
     (let (sg, r0) = strip_sign t
      in if r0 = ''Infinity'' then NonInt
         else
           let ip = takeWhile (is_digit 10) r0;
               r1 = dropWhile (is_digit 10) r0;
               dot = (r1 \<noteq> [] \<and> hd r1 = CHR ''.'');
               fp = (if dot then takeWhile (is_digit 10) (tl r1) else []);
               r2 = (if dot then dropWhile (is_digit 10) (tl r1) else r1)
           in if ip = [] \<and> fp = [] then NaN
              else case exponent_part r2 of
                     None \<Rightarrow> NaN
                   | Some e \<Rightarrow> scaled sg (digits_value 10 (ip @ fp)) (e - int (length fp)))"

definition string_to_number :: "string \<Rightarrow> jsnum" where
  \<comment> \<open>\<open>StringToNumber\<close>, the \<open>ToNumber\<close> of a string\<close>
  "string_to_number s =
     (let t = js_trim s
      in if t = [] then Num 0
         else if take 2 t = ''0x'' \<or> take 2 t = ''0X'' then radix_literal 16 (drop 2 t)
         else if take 2 t = ''0o'' \<or> take 2 t = ''0O'' then radix_literal 8 (drop 2 t)
         else if take 2 t = ''0b'' \<or> take 2 t = ''0B'' then radix_literal 2 (drop 2 t)
         else decimal_literal t)"

subsection \<open>\<open>ToString\<close> of a value that came from JSON\<close>

text \<open>
  An object that came from JSON has no callable property. Its conversion to a primitive
  reaches \<open>Object.prototype.toString\<close> unless an own property named \<open>toString\<close>
  shadows it, and then no method yields a primitive: a \<open>TypeError\<close>. An array is joined
  with commas, \<open>null\<close> elements giving the empty string.
\<close>

fun js_to_string :: "json \<Rightarrow> exn + string"
  and array_join :: "json list \<Rightarrow> exn + string" where
  "js_to_string JNull = Inr ''null''"
| "js_to_string (JBool b) = Inr (if b then ''true'' else ''false'')"
| "js_to_string (JNum k) = Inr (num_to_string k)"
| "js_to_string (JStr s) = Inr s"
| "js_to_string (JArr xs) = array_join xs"
| "js_to_string (JObj m) =
     (if ''toString'' |\<in>| fmdom m then Inl TypeError else Inr ''[object Object]'')"
| "array_join [] = Inr []"
| "array_join (x # xs) =
     (case (if x = JNull then Inr [] else js_to_string x) of
        Inl e \<Rightarrow> Inl e
      | Inr s \<Rightarrow>
          (if xs = [] then Inr s
           else case array_join xs of Inl e \<Rightarrow> Inl e | Inr t \<Rightarrow> Inr (s @ '','' @ t)))"

subsection \<open>Equality with a number\<close>

fun number_equals :: "jsnum \<Rightarrow> jsnum \<Rightarrow> bool" where
  "number_equals (Num a) (Num b) = (a = b)"
| "number_equals _ _ = False"

text \<open>
  \<open>v === n\<close> and \<open>v == n\<close> for a property value \<open>v\<close> (\<open>None\<close> is \<open>undefined\<close>) and a
  number \<open>n\<close>.
\<close>

fun strict_eq :: "json option \<Rightarrow> jsnum \<Rightarrow> bool" where
  "strict_eq (Some (JNum k)) n = number_equals (Num k) n"
| "strict_eq _ n = False"

fun loose_eq :: "json option \<Rightarrow> jsnum \<Rightarrow> exn + bool" where
  "loose_eq None n = Inr False"
| "loose_eq (Some JNull) n = Inr False"
| "loose_eq (Some (JBool b)) n = Inr (number_equals (Num (if b then 1 else 0)) n)"
| "loose_eq (Some (JNum k)) n = Inr (number_equals (Num k) n)"
| "loose_eq (Some (JStr s)) n = Inr (number_equals (string_to_number s) n)"
| "loose_eq (Some v) n =
     (case js_to_string v of
        Inl e \<Rightarrow> Inl e
      | Inr s \<Rightarrow> Inr (number_equals (string_to_number s) n))"

fun js_truthy :: "json option \<Rightarrow> bool" where
  "js_truthy None = False"
| "js_truthy (Some JNull) = False"
| "js_truthy (Some (JBool b)) = b"
| "js_truthy (Some (JNum k)) = (k \<noteq> 0)"
| "js_truthy (Some (JStr s)) = (s \<noteq> [])"
| "js_truthy (Some v) = True"

section \<open>The file-backed server (\<open>src/index.js\<close>)\<close>

text \<open>
  The state of the process is the list \<open>pokemonsList\<close> and the file
  \<open>data/pokemons.json\<close>. The file is represented by the JSON value its text denotes:
  \<open>JSON.parse\<close> reads back what \<open>JSON.stringify\<close> wrote, for values that came from
  JSON. \<open>fs.writeFileSync\<close> may throw; whether the write of a call succeeds is an input
  of the call. A handler that throws is answered by the framework with status 500.
\<close>

record fstate =
  pokemonsList :: "json list"
  pokemons_json :: json

datatype response = Send nat json | Uncaught exn

fun status :: "response \<Rightarrow> nat" where
  "status (Send code b) = code"
| "status (Uncaught e) = 500"

definition obj :: "(string \<times> json) list \<Rightarrow> json" where
  "obj kvs = JObj (fmap_of_list kvs)"

definition msg_not_found :: string where
  "msg_not_found = ''Pok'' @ [CHR 0xE9] @ ''mon non trouv'' @ [CHR 0xE9] @ ''.''"

definition msg_added :: string where
  "msg_added = ''Pok'' @ [CHR 0xE9] @ ''mon ajout'' @ [CHR 0xE9] @ '' avec succ'' @ [CHR 0xE8] @ ''s.''"

definition msg_updated :: string where
  "msg_updated = ''Pok'' @ [CHR 0xE9] @ ''mon mis '' @ [CHR 0xE0] @ '' jour avec succ'' @ [CHR 0xE8] @ ''s.''"

definition msg_deleted :: string where
  "msg_deleted = ''Pok'' @ [CHR 0xE9] @ ''mon supprim'' @ [CHR 0xE9] @ '' avec succ'' @ [CHR 0xE8] @ ''s.''"

definition not_found :: response where
  "not_found = Send 404 (obj [(''message'', JStr msg_not_found)])"

subsection \<open>Property access, spread, \<open>find\<close> and \<open>findIndex\<close>\<close>

fun get_id :: "json \<Rightarrow> exn + json option" where
  \<comment> \<open>\<open>p.id\<close>: a \<open>TypeError\<close> on \<open>null\<close>, \<open>undefined\<close> where there is no such property\<close>
  "get_id JNull = Inl TypeError"
| "get_id (JObj m) = Inr (fmlookup m ''id'')"
| "get_id v = Inr None"

fun index_props :: "nat \<Rightarrow> json list \<Rightarrow> (string \<times> json) list" where
  "index_props i [] = []"
| "index_props i (x # xs) = (dec_nat i, x) # index_props (Suc i) xs"

fun own_props :: "json \<Rightarrow> (string, json) fmap" where
  \<comment> \<open>the own enumerable properties that \<open>{...v}\<close> copies\<close>
  "own_props (JObj m) = m"
| "own_props (JArr xs) = fmap_of_list (index_props 0 xs)"
| "own_props (JStr s) = fmap_of_list (index_props 0 (map (\<lambda>c. JStr [c]) s))"
| "own_props v = fmempty"

definition spread :: "json \<Rightarrow> json \<Rightarrow> json" where
  \<comment> \<open>\<open>{ ...a, ...b }\<close>\<close>
  "spread a b = JObj (own_props a ++\<^sub>f own_props b)"

fun js_find :: "('a \<Rightarrow> exn + bool) \<Rightarrow> 'a list \<Rightarrow> exn + 'a option" where
  "js_find P [] = Inr None"
| "js_find P (x # xs) =
     (case P x of
        Inl e \<Rightarrow> Inl e
      | Inr True \<Rightarrow> Inr (Some x)
      | Inr False \<Rightarrow> js_find P xs)"

fun js_findIndex :: "('a \<Rightarrow> exn + bool) \<Rightarrow> 'a list \<Rightarrow> exn + nat option" where
  \<comment> \<open>\<open>None\<close> is the index \<open>-1\<close>\<close>
  "js_findIndex P [] = Inr None"
| "js_findIndex P (x # xs) =
     (case P x of
        Inl e \<Rightarrow> Inl e
      | Inr True \<Rightarrow> Inr (Some 0)
      | Inr False \<Rightarrow>
          (case js_findIndex P xs of
             Inl e \<Rightarrow> Inl e
           | Inr None \<Rightarrow> Inr None
           | Inr (Some i) \<Rightarrow> Inr (Some (Suc i))))"

definition id_strict :: "jsnum \<Rightarrow> json \<Rightarrow> exn + bool" where
  \<comment> \<open>\<open>p => p.id === id\<close>\<close>
  "id_strict n p = (case get_id p of Inl e \<Rightarrow> Inl e | Inr v \<Rightarrow> Inr (strict_eq v n))"

definition id_loose :: "jsnum \<Rightarrow> json \<Rightarrow> exn + bool" where
  \<comment> \<open>\<open>p => p.id == id\<close>\<close>
  "id_loose n p = (case get_id p of Inl e \<Rightarrow> Inl e | Inr v \<Rightarrow> loose_eq v n)"

definition splice1 :: "nat \<Rightarrow> 'a list \<Rightarrow> 'a list" where
  \<comment> \<open>the list after \<open>splice(index, 1)\<close>\<close>
  "splice1 i xs = take i xs @ drop (Suc i) xs"

subsection \<open>The handlers\<close>

definition writeFile :: "bool \<Rightarrow> response \<Rightarrow> fstate \<Rightarrow> response \<times> fstate" where
  \<comment> \<open>\<open>fs.writeFileSync(filePath, JSON.stringify(pokemonsList, null, 2))\<close>, then the response\<close>
  "writeFile io_ok r s =
     (if io_ok then (r, s\<lparr>pokemons_json := JArr (pokemonsList s)\<rparr>) else (Uncaught IOError, s))"

definition list_pokemons :: "fstate \<Rightarrow> response" where
  \<comment> \<open>\<open>GET /api/pokemons\<close>\<close>
  "list_pokemons s = Send 200 (obj [(''pokemons'', JArr (pokemonsList s))])"

definition post_pokemon :: "bool \<Rightarrow> json \<Rightarrow> fstate \<Rightarrow> response \<times> fstate" where
  \<comment> \<open>\<open>POST /api/pokemons\<close>\<close>
  "post_pokemon io_ok newPokemon s =
     writeFile io_ok
       (Send 201 (obj [(''message'', JStr msg_added), (''pokemon'', newPokemon)]))
       (s\<lparr>pokemonsList := pokemonsList s @ [newPokemon]\<rparr>)"

definition get_pokemon :: "string \<Rightarrow> fstate \<Rightarrow> response" where
  \<comment> \<open>\<open>GET /api/pokemons/:id\<close>\<close>
  "get_pokemon path_id s =
     (case js_find (id_strict (parseInt path_id)) (pokemonsList s) of
        Inl e \<Rightarrow> Uncaught e
      | Inr pokemon \<Rightarrow>
          if \<not> js_truthy pokemon then not_found
          else (case pokemon of None \<Rightarrow> not_found | Some p \<Rightarrow> Send 200 p))"

definition put_pokemon :: "bool \<Rightarrow> string \<Rightarrow> json \<Rightarrow> fstate \<Rightarrow> response \<times> fstate" where
  \<comment> \<open>\<open>PUT /api/pokemons/:id\<close>\<close>
  "put_pokemon io_ok path_id updatedPokemon s =
     (case js_findIndex (id_loose (parseInt path_id)) (pokemonsList s) of
        Inl e \<Rightarrow> (Uncaught e, s)
      | Inr None \<Rightarrow> (not_found, s)
      | Inr (Some index) \<Rightarrow>
          (let merged = spread (pokemonsList s ! index) updatedPokemon
           in writeFile io_ok
                (Send 200 (obj [(''message'', JStr msg_updated), (''pokemon'', merged)]))
                (s\<lparr>pokemonsList := (pokemonsList s)[index := merged]\<rparr>)))"

definition delete_pokemon :: "bool \<Rightarrow> string \<Rightarrow> fstate \<Rightarrow> response \<times> fstate" where
  \<comment> \<open>\<open>DELETE /api/pokemons/:id\<close>\<close>
  "delete_pokemon io_ok path_id s =
     (case js_findIndex (id_strict (parseInt path_id)) (pokemonsList s) of
        Inl e \<Rightarrow> (Uncaught e, s)
      | Inr None \<Rightarrow> (not_found, s)
      | Inr (Some index) \<Rightarrow>
          writeFile io_ok
            (Send 200 (obj [(''message'', JStr msg_deleted), (''pokemon'', pokemonsList s ! index)]))
            (s\<lparr>pokemonsList := splice1 index (pokemonsList s)\<rparr>))"

subsection \<open>Predicates on the state\<close>



subsection \<open>Sample records\<close>

definition bulbasaur :: json where
  "bulbasaur =
     obj [(''id'', JNum 1),
          (''name'', obj [(''english'', JStr ''Bulbasaur''), (''french'', JStr ''Bulbizarre'')]),
          (''type'', JArr [JStr ''Grass'', JStr ''Poison'']),
          (''base'', obj [(''HP'', JNum 45), (''Attack'', JNum 49)])]"

definition pikachu :: json where
  "pikachu =
     obj [(''id'', JNum 25),
          (''name'', obj [(''english'', JStr ''Pikachu'')]),
          (''type'', JArr [JStr ''Electric'']),
          (''base'', obj [(''HP'', JNum 35), (''Attack'', JNum 55)])]"

definition mew :: json where
  "mew = obj [(''id'', JNum 151), (''name'', obj [(''english'', JStr ''Mew'')]),
              (''type'', JArr [JStr ''Psychic''])]"


definition french_name :: json where
  \<comment> \<open>a partial body\<close>
  "french_name = obj [(''name'', obj [(''french'', JStr ''Pikachu'')])]"

definition pokedex :: fstate where
  "pokedex = \<lparr>pokemonsList = [bulbasaur, pikachu], pokemons_json = JArr [bulbasaur, pikachu]\<rparr>"


section \<open>The document-store server (the second source file)\<close>

text \<open>
  The database driver, the object mapper and the hashing library are not code of the
  repository. A call into one of them is a parameter of the handler: a function from
  the arguments of the call to its outcome, a rejection (\<open>Inl\<close>) or a result. What the
  source itself declares, the user schema with its setters and validators, is modelled.
\<close>

datatype js_error =
    ValidationError "string list" string
  | DuplicateKey string string
  | OtherError string

fun error_message :: "js_error \<Rightarrow> string" where
  \<comment> \<open>\<open>error.message\<close>\<close>
  "error_message (ValidationError msgs m) = m"
| "error_message (DuplicateKey field m) = m"
| "error_message (OtherError m) = m"

subsection \<open>The handlers of \<open>/api/pokemons\<close>\<close>

definition server_error :: "string \<Rightarrow> js_error \<Rightarrow> response" where
  "server_error what e = Send 500 (obj [(''error'', JStr what), (''details'', JStr (error_message e))])"

definition err_list :: string where
  "err_list = ''Erreur lors de la r'' @ [CHR 0xE9] @ ''cup'' @ [CHR 0xE9] @ ''ration des pok''
     @ [CHR 0xE9] @ ''mons''"

definition err_add :: string where
  "err_add = ''Erreur lors de l'' @ [CHR 0x27] @ ''ajout du pok'' @ [CHR 0xE9] @ ''mon''"


definition err_update :: string where
  "err_update = ''Erreur lors de la mise '' @ [CHR 0xE0] @ '' jour du pok'' @ [CHR 0xE9] @ ''mon''"


definition db_list_pokemons :: "(js_error + json list) \<Rightarrow> response" where
  \<comment> \<open>\<open>GET /api/pokemons\<close>; the parameter is the outcome of \<open>Pokemon.find({})\<close>\<close>
  "db_list_pokemons find_all =
     (case find_all of
        Inl e \<Rightarrow> server_error err_list e
      | Inr pokemons \<Rightarrow> Send 200 (obj [(''pokemons'', JArr pokemons)]))"

definition db_post_pokemon :: "(json \<Rightarrow> js_error + json) \<Rightarrow> json \<Rightarrow> response" where
  \<comment> \<open>\<open>POST /api/pokemons\<close>; \<open>save\<close> is \<open>new Pokemon(pokemonData).save()\<close> and yields the document\<close>
  "db_post_pokemon save pokemonData =
     (case save pokemonData of
        Inl e \<Rightarrow> server_error err_add e
      | Inr newPokemon \<Rightarrow>
          Send 201 (obj [(''message'', JStr msg_added), (''pokemon'', newPokemon)]))"


definition db_put_pokemon ::
  "(jsnum \<Rightarrow> json \<Rightarrow> js_error + json option) \<Rightarrow> string \<Rightarrow> json \<Rightarrow> response" where
  \<comment> \<open>\<open>PUT /api/pokemons/:id\<close>; \<open>findOneAndUpdate n d\<close> is
      \<open>Pokemon.findOneAndUpdate({ id: n }, d, { new: true })\<close>\<close>
  "db_put_pokemon findOneAndUpdate path_id updatedData =
     (case findOneAndUpdate (parseInt path_id) updatedData of
        Inl e \<Rightarrow> server_error err_update e
      | Inr None \<Rightarrow> not_found
      | Inr (Some updatedPokemon) \<Rightarrow>
          Send 200 (obj [(''message'', JStr msg_updated), (''pokemon'', updatedPokemon)]))"


subsection \<open>Regular expressions\<close>

text \<open>
  The pattern of the schema is anchored at both ends and has no back-reference:
  \<open>test\<close> decides membership of the whole string in its language, here by derivatives.
\<close>

datatype rx = Zero | One | Atom "char \<Rightarrow> bool" | Alt rx rx | Seq rx rx | Star rx

fun nullable :: "rx \<Rightarrow> bool" where
  "nullable Zero = False"
| "nullable One = True"
| "nullable (Atom P) = False"
| "nullable (Alt r s) = (nullable r \<or> nullable s)"
| "nullable (Seq r s) = (nullable r \<and> nullable s)"
| "nullable (Star r) = True"

fun deriv :: "char \<Rightarrow> rx \<Rightarrow> rx" where
  "deriv c Zero = Zero"
| "deriv c One = Zero"
| "deriv c (Atom P) = (if P c then One else Zero)"
| "deriv c (Alt r s) = Alt (deriv c r) (deriv c s)"
| "deriv c (Seq r s) =
     (if nullable r then Alt (Seq (deriv c r) s) (deriv c s) else Seq (deriv c r) s)"
| "deriv c (Star r) = Seq (deriv c r) (Star r)"

definition rx_test :: "rx \<Rightarrow> string \<Rightarrow> bool" where
  "rx_test r s = nullable (foldl (\<lambda>r c. deriv c r) r s)"

definition rx_plus :: "rx \<Rightarrow> rx" where
  "rx_plus r = Seq r (Star r)"

definition rx_opt :: "rx \<Rightarrow> rx" where
  "rx_opt r = Alt r One"

definition is_word :: "char \<Rightarrow> bool" where
  \<comment> \<open>the class \<open>\w\<close>: a letter, a digit or the underscore\<close>
  "is_word c =
     (let n = (of_char c :: nat)
      in (48 \<le> n \<and> n \<le> 57) \<or> (65 \<le> n \<and> n \<le> 90) \<or> n = 95 \<or> (97 \<le> n \<and> n \<le> 122))"

definition dot_or_dash :: "char \<Rightarrow> bool" where
  "dot_or_dash c = (c = CHR ''.'' \<or> c = CHR ''-'')"

definition words :: rx where
  \<comment> \<open>\<open>\w+([.-]?\w+)*\<close>\<close>
  "words = Seq (rx_plus (Atom is_word)) (Star (Seq (rx_opt (Atom dot_or_dash)) (rx_plus (Atom is_word))))"

definition email_rx :: rx where
  \<comment> \<open>\<open>/^\w+([.-]?\w+)*@\w+([.-]?\w+)*(\.\w{2,3})+$/\<close>\<close>
  "email_rx =
     Seq words
       (Seq (Atom (\<lambda>c. c = CHR ''@''))
          (Seq words
             (rx_plus (Seq (Atom (\<lambda>c. c = CHR ''.''))
                (Seq (Atom is_word) (Seq (Atom is_word) (rx_opt (Atom is_word))))))))"

subsection \<open>The user schema\<close>

record user =
  user_id :: string
  user_username :: string
  user_email :: string
  user_password :: string
  user_createdAt :: string

definition to_lower :: "char \<Rightarrow> char" where
  \<comment> \<open>\<open>toLowerCase\<close> on a code unit below 256\<close>
  "to_lower c =
     (let n = (of_char c :: nat)
      in if (65 \<le> n \<and> n \<le> 90) \<or> (192 \<le> n \<and> n \<le> 222 \<and> n \<noteq> 215) then char_of (n + 32) else c)"

definition apostrophe :: string where
  "apostrophe = [CHR 0x27]"

definition deja :: string where
  "deja = ''d'' @ [CHR 0xE9] @ ''j'' @ [CHR 0xE0]"

definition username_required :: string where
  "username_required = ''Le nom d'' @ apostrophe @ ''utilisateur est obligatoire''"

definition username_minlength :: string where
  "username_minlength = ''Le nom d'' @ apostrophe @ ''utilisateur doit contenir au moins 3 caract''
     @ [CHR 0xE8] @ ''res''"

definition email_required :: string where
  "email_required = ''L'' @ apostrophe @ ''adresse email est obligatoire''"

definition email_match :: string where
  "email_match = ''Veuillez fournir une adresse email valide''"

definition password_required :: string where
  "password_required = ''Le mot de passe est obligatoire''"

definition password_minlength :: string where
  "password_minlength = ''Le mot de passe doit contenir au moins 6 caract'' @ [CHR 0xE8] @ ''res''"

definition new_User :: "string \<Rightarrow> string \<Rightarrow> string \<Rightarrow> string \<Rightarrow> string \<Rightarrow> user" where
  \<comment> \<open>\<open>new User({ username, email, password })\<close> with the setters \<open>trim\<close> and \<open>lowercase\<close>;
      the identifier and the creation time are those the library gives the document\<close>
  "new_User oid now username email password =
     \<lparr>user_id = oid, user_username = js_trim username,
      user_email = map to_lower (js_trim email), user_password = password,
      user_createdAt = now\<rparr>"

definition validate_username :: "string \<Rightarrow> (string \<times> string) list" where
  "validate_username v =
     (if v = [] then [(''username'', username_required)]
      else if length v < 3 then [(''username'', username_minlength)]
      else [])"

definition validate_email :: "string \<Rightarrow> (string \<times> string) list" where
  "validate_email v =
     (if v = [] then [(''email'', email_required)]
      else if \<not> rx_test email_rx v then [(''email'', email_match)]
      else [])"

definition validate_password :: "string \<Rightarrow> (string \<times> string) list" where
  "validate_password v =
     (if v = [] then [(''password'', password_required)]
      else if length v < 6 then [(''password'', password_minlength)]
      else [])"

definition validate :: "user \<Rightarrow> (string \<times> string) list" where
  \<comment> \<open>the failed paths with their messages: for each path the first validator that fails\<close>
  "validate u =
     validate_username (user_username u) @ validate_email (user_email u)
     @ validate_password (user_password u)"

fun join :: "string \<Rightarrow> string list \<Rightarrow> string" where
  "join sep [] = []"
| "join sep [x] = x"
| "join sep (x # y # ys) = x @ sep @ join sep (y # ys)"

definition validation_error :: "(string \<times> string) list \<Rightarrow> js_error" where
  "validation_error errs =
     ValidationError (map snd errs)
       (''User validation failed: '' @ join '', '' (map (\<lambda>(path, m). path @ '': '' @ m) errs))"

subsection \<open>The libraries the handlers call\<close>

record user_model =
  findOne_email :: "string \<Rightarrow> js_error + user option"
  findOne_username :: "string \<Rightarrow> js_error + user option"
  fresh_id :: string
  date_now :: string
  insert_user :: "user \<Rightarrow> js_error + unit"

record bcrypt =
  genSalt :: "nat \<Rightarrow> js_error + string"
  hash :: "string \<Rightarrow> string \<Rightarrow> js_error + string"
  compare :: "string \<Rightarrow> string \<Rightarrow> js_error + bool"

definition save :: "user_model \<Rightarrow> user \<Rightarrow> js_error + unit" where
  \<comment> \<open>\<open>user.save()\<close>: the validators of the schema, then the write\<close>
  "save db u = (case validate u of [] \<Rightarrow> insert_user db u | errs \<Rightarrow> Inl (validation_error errs))"

subsection \<open>\<open>POST /auth/register\<close> and \<open>POST /auth/login\<close>\<close>

text \<open>
  A request body carries each field as a string or not at all. The second component of
  the result of \<open>register\<close> is the account the call stored, if it stored one.
\<close>

record auth_body =
  username :: "string option"
  email :: "string option"
  password :: "string option"

definition message :: "nat \<Rightarrow> string \<Rightarrow> response" where
  "message code m = Send code (obj [(''message'', JStr m)])"

definition all_required :: string where
  "all_required = ''Tous les champs sont obligatoires''"

definition email_used :: string where
  "email_used = ''Cette adresse email est '' @ deja @ '' utilis'' @ [CHR 0xE9] @ ''e''"

definition username_taken :: string where
  "username_taken = ''Ce nom d'' @ apostrophe @ ''utilisateur est '' @ deja @ '' pris''"

definition field_used :: "string \<Rightarrow> string" where
  "field_used field = ''Ce '' @ field @ '' est '' @ deja @ '' utilis'' @ [CHR 0xE9]"

definition account_created :: string where
  "account_created = ''Compte cr'' @ [CHR 0xE9, CHR 0xE9] @ '' avec succ'' @ [CHR 0xE8] @ ''s''"

definition register_failed :: string where
  "register_failed = ''Erreur lors de la cr'' @ [CHR 0xE9] @ ''ation du compte''"

definition bad_credentials :: string where
  "bad_credentials = ''Email ou mot de passe incorrect''"

definition login_ok :: string where
  "login_ok = ''Connexion r'' @ [CHR 0xE9] @ ''ussie''"

definition login_failed :: string where
  "login_failed = ''Erreur lors de la connexion''"

definition userResponse :: "user \<Rightarrow> json" where
  "userResponse u =
     obj [(''id'', JStr (user_id u)), (''username'', JStr (user_username u)),
          (''email'', JStr (user_email u)), (''createdAt'', JStr (user_createdAt u))]"

definition register_try ::
  "user_model \<Rightarrow> bcrypt \<Rightarrow> string \<Rightarrow> string \<Rightarrow> string \<Rightarrow> js_error + response \<times> user option" where
  \<comment> \<open>the \<open>try\<close> block after the check of the fields\<close>
  "register_try db bc un em pw =
     (case findOne_email db em of
        Inl e \<Rightarrow> Inl e
      | Inr (Some emailExists) \<Rightarrow> Inr (message 400 email_used, None)
      | Inr None \<Rightarrow>
     (case findOne_username db un of
        Inl e \<Rightarrow> Inl e
      | Inr (Some usernameExists) \<Rightarrow> Inr (message 400 username_taken, None)
      | Inr None \<Rightarrow>
     (case genSalt bc 10 of
        Inl e \<Rightarrow> Inl e
      | Inr salt \<Rightarrow>
     (case hash bc pw salt of
        Inl e \<Rightarrow> Inl e
      | Inr hashedPassword \<Rightarrow>
     (let u = new_User (fresh_id db) (date_now db) un em hashedPassword
      in case save db u of
           Inl e \<Rightarrow> Inl e
         | Inr _ \<Rightarrow>
             Inr (Send 201 (obj [(''message'', JStr account_created), (''user'', userResponse u)]),
                  Some u))))))"

fun register_catch :: "js_error \<Rightarrow> response" where
  "register_catch (ValidationError messages m) = message 400 (join '', '' messages)"
| "register_catch (DuplicateKey field m) = message 400 (field_used field)"
| "register_catch (OtherError m) =
     Send 500 (obj [(''message'', JStr register_failed), (''error'', JStr m)])"

definition register :: "user_model \<Rightarrow> bcrypt \<Rightarrow> auth_body \<Rightarrow> response \<times> user option" where
  "register db bc body =
     (case (username body, email body, password body) of
        (Some un, Some em, Some pw) \<Rightarrow>
          if un = [] \<or> em = [] \<or> pw = [] then (message 400 all_required, None)
          else (case register_try db bc un em pw of
                  Inl e \<Rightarrow> (register_catch e, None)
                | Inr r \<Rightarrow> r)
      | _ \<Rightarrow> (message 400 all_required, None))"

definition login_try :: "user_model \<Rightarrow> bcrypt \<Rightarrow> string \<Rightarrow> string \<Rightarrow> js_error + response" where
  "login_try db bc em pw =
     (case findOne_email db em of
        Inl e \<Rightarrow> Inl e
      | Inr None \<Rightarrow> Inr (message 401 bad_credentials)
      | Inr (Some u) \<Rightarrow>
          (case compare bc pw (user_password u) of
             Inl e \<Rightarrow> Inl e
           | Inr isMatch \<Rightarrow>
               if \<not> isMatch then Inr (message 401 bad_credentials)
               else Inr (Send 200 (obj [(''message'', JStr login_ok), (''user'', userResponse u)]))))"

definition login :: "user_model \<Rightarrow> bcrypt \<Rightarrow> auth_body \<Rightarrow> response" where
  "login db bc body =
     (case (email body, password body) of
        (Some em, Some pw) \<Rightarrow>
          if em = [] \<or> pw = [] then message 400 all_required
          else (case login_try db bc em pw of
                  Inl e \<Rightarrow>
                    Send 500 (obj [(''message'', JStr login_failed), (''error'', JStr (error_message e))])
                | Inr r \<Rightarrow> r)
      | _ \<Rightarrow> message 400 all_required)"

fun has_prop :: "json \<Rightarrow> string \<Rightarrow> bool" where
  \<comment> \<open>whether an object has an own property of that name\<close>
  "has_prop (JObj m) k = (fmlookup m k \<noteq> None)"
| "has_prop v k = False"

subsection \<open>A store with no account, and a hashing library\<close>

definition no_accounts :: user_model where
  "no_accounts =
     \<lparr>findOne_email = (\<lambda>e. Inr None), findOne_username = (\<lambda>u. Inr None),
      fresh_id = ''65f1a2b3c4d5e6f708192a3b'', date_now = ''2024-03-13T09:30:00.000Z'',
      insert_user = (\<lambda>u. Inr ())\<rparr>"

definition some_bcrypt :: bcrypt where
  \<comment> \<open>a library whose hashes have the 60 characters of a bcrypt hash\<close>
  "some_bcrypt =
     \<lparr>genSalt = (\<lambda>rounds. Inr ''$2a$10$N9qo8uLOickgx2ZMRZoMye''),
      hash = (\<lambda>pw salt. Inr (salt @ take 31 (pw @ replicate 31 (CHR ''.'')))),
      compare = (\<lambda>pw h. Inr (h = ''$2a$10$N9qo8uLOickgx2ZMRZoMye'' @ take 31 (pw @ replicate 31 (CHR ''.''))))\<rparr>"

definition ash :: user where
  "ash =
     \<lparr>user_id = ''65f1a2b3c4d5e6f708192a3a'', user_username = ''ash'',
      user_email = ''ash@kanto.org'',
      user_password = ''$2a$10$N9qo8uLOickgx2ZMRZoMye'' @ take 31 (''pikachu'' @ replicate 31 (CHR ''.'')),
      user_createdAt = ''2024-03-12T18:00:00.000Z''\<rparr>"

definition one_account :: user_model where
  \<comment> \<open>a store that holds the account of \<open>ash\<close>\<close>
  "one_account =
     \<lparr>findOne_email = (\<lambda>e. Inr (if e = ''ash@kanto.org'' then Some ash else None)),
      findOne_username = (\<lambda>u. Inr (if u = ''ash'' then Some ash else None)),
      fresh_id = ''65f1a2b3c4d5e6f708192a3b'', date_now = ''2024-03-13T09:30:00.000Z'',
      insert_user = (\<lambda>u. Inr ())\<rparr>"

section \<open>Digits, \<open>parseInt\<close> and \<open>StringToNumber\<close> on decimal strings\<close>

lemma digit_of_digit_char: "d < 10 \<Longrightarrow> digit_of (digit_char d) = Some d"
  by (simp add: digit_of_def digit_char_def Let_def)

lemma is_digit_digit_char: "d < 10 \<Longrightarrow> is_digit 10 (digit_char d)"
  by (simp add: is_digit_def digit_of_digit_char)

lemma digit_val_digit_char: "d < 10 \<Longrightarrow> digit_val (digit_char d) = d"
  by (simp add: digit_val_def digit_of_digit_char)

lemma dec_nat_digits: "list_all (is_digit 10) (dec_nat n)"
proof (induction n rule: dec_nat.induct)
  case (1 n)
  show ?case
  proof (cases "n < 10")
    case True
    then show ?thesis by (subst dec_nat.simps) (simp add: is_digit_digit_char)
  next
    case False
    with 1 show ?thesis by (subst dec_nat.simps) (simp add: is_digit_digit_char)
  qed
qed

lemma dec_nat_nonempty: "dec_nat n \<noteq> []"
  by (subst dec_nat.simps) simp

lemma digits_value_snoc: "digits_value R (Z @ [c]) = digits_value R Z * R + digit_val c"
  by (simp add: digits_value_def)

lemma digits_value_dec_nat: "digits_value 10 (dec_nat n) = n"
proof (induction n rule: dec_nat.induct)
  case (1 n)
  show ?case
  proof (cases "n < 10")
    case True
    then show ?thesis
      by (subst dec_nat.simps) (simp add: digits_value_def digit_val_digit_char)
  next
    case False
    with 1 have "digits_value 10 (dec_nat (n div 10)) = n div 10" by simp
    with False show ?thesis
      by (subst dec_nat.simps) (simp add: digits_value_snoc digit_val_digit_char)
  qed
qed

lemma is_digit_10_facts:
  assumes "is_digit 10 c"
  shows "\<not> is_space c" "c \<noteq> CHR ''-''" "c \<noteq> CHR ''+''" "c \<noteq> CHR ''x''" "c \<noteq> CHR ''X''"
    "c \<noteq> CHR ''o''" "c \<noteq> CHR ''O''" "c \<noteq> CHR ''b''" "c \<noteq> CHR ''B''" "c \<noteq> CHR ''I''"
    "c \<noteq> CHR ''.''" "c \<noteq> CHR ''e''" "c \<noteq> CHR ''E''"
  using assms
  by (auto simp: is_digit_def digit_of_def is_space_def Let_def split: if_splits)


lemma digits_no_prefix:
  assumes "list_all (is_digit 10) ds" "\<not> is_digit 10 c"
  shows "take 2 ds \<noteq> [CHR ''0'', c]"
proof (cases ds)
  case Nil then show ?thesis by simp
next
  case (Cons a as)
  then show ?thesis using assms by (cases as) auto
qed

lemma takeWhile_digits: "list_all (is_digit 10) ds \<Longrightarrow> takeWhile (is_digit 10) ds = ds"
  by (simp add: list_all_iff)


lemma not_digit_letters:
  "\<not> is_digit 10 CHR ''x''" "\<not> is_digit 10 CHR ''X''" "\<not> is_digit 10 CHR ''o''"
  "\<not> is_digit 10 CHR ''O''" "\<not> is_digit 10 CHR ''b''" "\<not> is_digit 10 CHR ''B''"
  "\<not> is_digit 10 CHR ''-''" "\<not> is_digit 10 CHR ''+''" "\<not> is_digit 10 CHR ''I''"
  by (simp_all add: is_digit_def digit_of_def)

lemma parseInt_digits:
  assumes "ds \<noteq> []" "list_all (is_digit 10) ds"
  shows "parseInt ds = Num (int (digits_value 10 ds))"
    and "parseInt (CHR ''-'' # ds) = Num (- int (digits_value 10 ds))"
proof -
  obtain a as where ds: "ds = a # as" using assms(1) by (cases ds) auto
  have a: "is_digit 10 a" using assms(2) ds by simp
  have hex: "\<not> has_hex_prefix ds"
    using digits_no_prefix [OF assms(2)] not_digit_letters by (simp add: has_hex_prefix_def)
  have sp: "dropWhile is_space ds = ds" using ds is_digit_10_facts(1) [OF a] by simp
  have hd: "hd ds \<noteq> CHR ''-''" "hd ds \<noteq> CHR ''+''" using ds is_digit_10_facts [OF a] by simp_all
  show "parseInt ds = Num (int (digits_value 10 ds))"
    using assms(1) hex sp hd by (simp add: parseInt_def Let_def takeWhile_digits [OF assms(2)])
  have sp': "\<not> is_space CHR ''-''" by (simp add: is_space_def)
  show "parseInt (CHR ''-'' # ds) = Num (- int (digits_value 10 ds))"
    using assms(1) hex by (simp add: parseInt_def Let_def sp' takeWhile_digits [OF assms(2)])
qed

lemma parseInt_num_to_string: "parseInt (num_to_string n) = Num n"
  by (simp add: num_to_string_def parseInt_digits dec_nat_nonempty dec_nat_digits digits_value_dec_nat)








section \<open>\<open>find\<close>, \<open>findIndex\<close> and the comparisons\<close>

lemma js_find_none: "\<forall>p\<in>set xs. P p = Inr False \<Longrightarrow> js_find P xs = Inr None"
  by (induction xs) auto


lemma js_find_append:
  "\<forall>p\<in>set xs. P p = Inr False \<Longrightarrow> P r = Inr True \<Longrightarrow> js_find P (xs @ [r]) = Inr (Some r)"
  by (induction xs) auto

lemma js_findIndex_append:
  "\<forall>p\<in>set xs. P p = Inr False \<Longrightarrow> P r = Inr True
   \<Longrightarrow> js_findIndex P (xs @ [r]) = Inr (Some (length xs))"
  by (induction xs) auto


lemma js_findIndex_Some:
  "js_findIndex P xs = Inr (Some i) \<Longrightarrow> i < length xs \<and> P (xs ! i) = Inr True"
proof (induction xs arbitrary: i)
  case Nil
  then show ?case by simp
next
  case (Cons x xs)
  then show ?case
    by (cases i) (auto split: sum.splits bool.splits option.splits)
qed


lemma number_equals_NaN [simp]: "number_equals x NaN = False"
  by (cases x) simp_all

lemma id_strict_no: "p \<noteq> JNull \<Longrightarrow> get_id p \<noteq> Inr (Some (JNum n)) \<Longrightarrow> id_strict (Num n) p = Inr False"
proof (cases p)
  case (JObj m)
  assume "get_id p \<noteq> Inr (Some (JNum n))"
  with JObj have "fmlookup m ''id'' \<noteq> Some (JNum n)" by simp
  then have "\<not> strict_eq (fmlookup m ''id'') (Num n)"
    by (cases "(fmlookup m ''id'', Num n)" rule: strict_eq.cases) auto
  with JObj show ?thesis by (simp add: id_strict_def)
qed (simp_all add: id_strict_def)

lemma id_strict_yes: "get_id p = Inr (Some (JNum n)) \<Longrightarrow> id_strict (Num n) p = Inr True"
  by (simp add: id_strict_def)






section \<open>The file-backed handlers\<close>

text \<open>
  C1. \<open>PUT /api/pokemons/:id\<close> on an id that the lookup of the handler finds at index \<open>i\<close>:
  the element there is an object \<open>m\<close>, it is replaced by the shallow merge of the body
  onto it, every other element stays, the file is rewritten, and the response is 200 with
  the merged record. In the merge a property of the body wins, and a property the body
  lacks keeps its stored value. In the document-store server the merge is the work of
  \<open>findOneAndUpdate\<close>; the handler answers 200 with the document that call returns.
\<close>

theorem put_shallow_merge:
  assumes "js_findIndex (id_loose (parseInt path_id)) (pokemonsList s) = Inr (Some i)"
  shows "\<exists>m. i < length (pokemonsList s) \<and> pokemonsList s ! i = JObj m
           \<and> put_pokemon True path_id b s =
               (Send 200 (obj [(''message'', JStr msg_updated), (''pokemon'', JObj (m ++\<^sub>f own_props b))]),
                s\<lparr>pokemonsList := (pokemonsList s)[i := JObj (m ++\<^sub>f own_props b)],
                  pokemons_json := JArr ((pokemonsList s)[i := JObj (m ++\<^sub>f own_props b)])\<rparr>)
           \<and> (\<forall>k. fmlookup (m ++\<^sub>f own_props b) k =
                  (case fmlookup (own_props b) k of Some v \<Rightarrow> Some v | None \<Rightarrow> fmlookup m k))
           \<and> (\<forall>d findOneAndUpdate. findOneAndUpdate (parseInt path_id) b = Inr (Some d) \<longrightarrow>
                  db_put_pokemon findOneAndUpdate path_id b =
                    Send 200 (obj [(''message'', JStr msg_updated), (''pokemon'', d)]))"
proof -
  let ?xs = "pokemonsList s"
  from js_findIndex_Some [OF assms]
  have i: "i < length ?xs" and hit: "id_loose (parseInt path_id) (?xs ! i) = Inr True" by simp_all
  obtain m where m: "?xs ! i = JObj m"
    using hit by (cases "?xs ! i") (simp_all add: id_loose_def)
  have put: "put_pokemon True path_id b s =
      (Send 200 (obj [(''message'', JStr msg_updated), (''pokemon'', JObj (m ++\<^sub>f own_props b))]),
       s\<lparr>pokemonsList := ?xs[i := JObj (m ++\<^sub>f own_props b)],
         pokemons_json := JArr (?xs[i := JObj (m ++\<^sub>f own_props b)])\<rparr>)"
    by (simp add: put_pokemon_def assms m spread_def writeFile_def Let_def)
  have look: "\<forall>k. fmlookup (m ++\<^sub>f own_props b) k =
      (case fmlookup (own_props b) k of Some v \<Rightarrow> Some v | None \<Rightarrow> fmlookup m k)"
    by (auto split: option.splits)
  have db: "\<forall>d findOneAndUpdate. findOneAndUpdate (parseInt path_id) b = Inr (Some d) \<longrightarrow>
      db_put_pokemon findOneAndUpdate path_id b =
        Send 200 (obj [(''message'', JStr msg_updated), (''pokemon'', d)])"
    by (simp add: db_put_pokemon_def)
  from i m put look db show ?thesis by blast
qed

text \<open>
  C2. A record \<open>r\<close> whose id is the integer \<open>n\<close>, and a list that holds no \<open>null\<close> and
  no record with id \<open>n\<close>: after \<open>POST\<close> of \<open>r\<close>, \<open>GET /api/pokemons/n\<close> answers 200 with
  \<open>r\<close> itself; after \<open>DELETE /api/pokemons/n\<close>, the same \<open>GET\<close> answers 404. This holds
  whether or not the two file writes succeed: the list in memory is changed before the write.
\<close>

theorem create_get_delete_get:
  assumes "get_id r = Inr (Some (JNum n))"
    and "\<forall>p\<in>set (pokemonsList s). p \<noteq> JNull \<and> get_id p \<noteq> Inr (Some (JNum n))"
  shows "get_pokemon (num_to_string n) (snd (post_pokemon w1 r s)) = Send 200 r
       \<and> get_pokemon (num_to_string n)
           (snd (delete_pokemon w2 (num_to_string n) (snd (post_pokemon w1 r s))))
         = Send 404 (obj [(''message'', JStr msg_not_found)])"
proof -
  let ?xs = "pokemonsList s"
  let ?P = "id_strict (Num n)"
  have no: "\<forall>p\<in>set ?xs. ?P p = Inr False" using assms(2) by (simp add: id_strict_no)
  have yes: "?P r = Inr True" using assms(1) by (rule id_strict_yes)
  obtain m where r: "r = JObj m" using assms(1) by (cases r) simp_all
  have l1: "pokemonsList (snd (post_pokemon w1 r s)) = ?xs @ [r]"
    by (simp add: post_pokemon_def writeFile_def)
  have t: "js_truthy (Some r)" using r by simp
  have g1: "get_pokemon (num_to_string n) (snd (post_pokemon w1 r s)) = Send 200 r"
    by (simp add: get_pokemon_def parseInt_num_to_string l1 js_find_append [OF no yes] t)
  have l2: "pokemonsList (snd (delete_pokemon w2 (num_to_string n) (snd (post_pokemon w1 r s)))) = ?xs"
    by (simp add: delete_pokemon_def parseInt_num_to_string l1 js_findIndex_append [OF no yes]
        writeFile_def splice1_def)
  have g2: "get_pokemon (num_to_string n)
      (snd (delete_pokemon w2 (num_to_string n) (snd (post_pokemon w1 r s)))) = not_found"
    by (simp add: get_pokemon_def parseInt_num_to_string l2 js_find_none [OF no])
  from g1 g2 show ?thesis by (simp add: not_found_def)
qed



text \<open>
  C7. \<open>POST /api/pokemons\<close> of a record whose id is that of the stored record at index
  \<open>i\<close>: the record is appended, the response is 201 with the record, and the list then
  holds two elements of the same id, at \<open>i\<close> and at the end.
\<close>

theorem post_allows_duplicate_id:
  assumes "i < length (pokemonsList s)" and "get_id (pokemonsList s ! i) = get_id r"
  shows "post_pokemon True r s =
           (Send 201 (obj [(''message'', JStr msg_added), (''pokemon'', r)]),
            s\<lparr>pokemonsList := pokemonsList s @ [r], pokemons_json := JArr (pokemonsList s @ [r])\<rparr>)
       \<and> get_id ((pokemonsList s @ [r]) ! i) = get_id ((pokemonsList s @ [r]) ! length (pokemonsList s))"
  using assms by (simp add: post_pokemon_def writeFile_def nth_append)





section \<open>Registration and login\<close>

lemma js_trim_Nil [simp]: "js_trim [] = []"
  by (simp add: js_trim_def)

lemma email_rx_not_empty: "\<not> rx_test email_rx []"
  by (simp add: rx_test_def email_rx_def words_def rx_plus_def)

text \<open>
  The claim C3 as first stated asks for no more than an unused username and email and a
  password of 6 characters. The validators of the schema ask for more: a username of two
  characters is refused with status 400.
\<close>

theorem register_short_username_counterexample:
  "findOne_email no_accounts ''ab@cd.ef'' = Inr None
   \<and> findOne_username no_accounts ''ab'' = Inr None
   \<and> 6 \<le> length ''secret''
   \<and> register no_accounts some_bcrypt
        \<lparr>username = Some ''ab'', email = Some ''ab@cd.ef'', password = Some ''secret''\<rparr>
      = (Send 400 (obj [(''message'', JStr username_minlength)]), None)
   \<and> status (fst (register no_accounts some_bcrypt
        \<lparr>username = Some ''ab'', email = Some ''ab@cd.ef'', password = Some ''secret''\<rparr>)) \<noteq> 201"
proof -
  have r: "register no_accounts some_bcrypt
        \<lparr>username = Some ''ab'', email = Some ''ab@cd.ef'', password = Some ''secret''\<rparr>
      = (Send 400 (obj [(''message'', JStr username_minlength)]), None)"
    by code_simp
  have a: "findOne_email no_accounts ''ab@cd.ef'' = Inr None"
    and b: "findOne_username no_accounts ''ab'' = Inr None"
    by (simp_all add: no_accounts_def)
  show ?thesis by (simp add: r a b)
qed

text \<open>
  C3, as amended. A register request with a password of at least 6 characters, whose
  email and username no lookup finds, whose username has at least 3 characters once
  trimmed, and whose email, trimmed and in lower case, matches the pattern of the schema:
  when the salt and the hash are produced, the hash has at least 6 characters and the
  write succeeds, the response is 201 with the message and the user object of id,
  username, email and createdAt; neither the body nor the user object has a property
  \<open>password\<close>.
\<close>

theorem register_valid_request_201:
  assumes "username body = Some un" and "email body = Some em" and "password body = Some pw"
    and "findOne_email db em = Inr None" and "findOne_username db un = Inr None"
    and "6 \<le> length pw"
    and "3 \<le> length (js_trim un)"
    and "rx_test email_rx (map to_lower (js_trim em))"
    and "genSalt bc 10 = Inr salt" and "hash bc pw salt = Inr h" and "6 \<le> length h"
    and "insert_user db (new_User (fresh_id db) (date_now db) un em h) = Inr ()"
  shows "register db bc body =
           (Send 201 (obj [(''message'', JStr account_created),
                           (''user'', userResponse (new_User (fresh_id db) (date_now db) un em h))]),
            Some (new_User (fresh_id db) (date_now db) un em h))
       \<and> \<not> has_prop (obj [(''message'', JStr account_created),
                           (''user'', userResponse (new_User (fresh_id db) (date_now db) un em h))])
             ''password''
       \<and> \<not> has_prop (userResponse (new_User (fresh_id db) (date_now db) un em h)) ''password''"
proof -
  let ?u = "new_User (fresh_id db) (date_now db) un em h"
  have un: "un \<noteq> []" using assms(7) by auto
  have em: "em \<noteq> []" using assms(8) email_rx_not_empty by auto
  have pw: "pw \<noteq> []" using assms(6) by auto
  have v1: "validate_username (user_username ?u) = []"
    using assms(7) by (auto simp: validate_username_def new_User_def)
  have v2: "validate_email (user_email ?u) = []"
    using assms(8) email_rx_not_empty by (auto simp: validate_email_def new_User_def)
  have v3: "validate_password (user_password ?u) = []"
    using assms(11) by (auto simp: validate_password_def new_User_def)
  have sv: "save db ?u = Inr ()"
    by (simp add: save_def validate_def v1 v2 v3 assms(12))
  have "register_try db bc un em pw =
      Inr (Send 201 (obj [(''message'', JStr account_created), (''user'', userResponse ?u)]), Some ?u)"
    by (simp add: register_try_def assms(4,5,9,10) sv Let_def)
  then have "register db bc body =
      (Send 201 (obj [(''message'', JStr account_created), (''user'', userResponse ?u)]), Some ?u)"
    by (simp add: register_def assms(1,2,3) un em pw)
  moreover have "\<not> has_prop (obj [(''message'', JStr account_created), (''user'', userResponse ?u)])
      ''password''"
    by (simp add: obj_def)
  moreover have "\<not> has_prop (userResponse ?u) ''password''"
    by (simp add: userResponse_def obj_def)
  ultimately show ?thesis by blast
qed

text \<open>
  C4. Two login requests that carry an email and a password, the first with an email
  that no account has, the second with the email of an account and a password that the
  hash comparison rejects: both are answered 401 with the same message.
\<close>

theorem login_failures_same_response:
  assumes "email b1 = Some e1" and "e1 \<noteq> []" and "password b1 = Some p1" and "p1 \<noteq> []"
    and "email b2 = Some e2" and "e2 \<noteq> []" and "password b2 = Some p2" and "p2 \<noteq> []"
    and "findOne_email db e1 = Inr None"
    and "findOne_email db e2 = Inr (Some u)"
    and "compare bc p2 (user_password u) = Inr False"
  shows "login db bc b1 = Send 401 (obj [(''message'', JStr bad_credentials)])
       \<and> login db bc b2 = Send 401 (obj [(''message'', JStr bad_credentials)])"
  using assms by (simp add: login_def login_try_def message_def)

text \<open>
  C5. A register request that carries the three fields, with an email that the lookup
  finds in the store: the response is 400 with the message that the email is already
  used, and no account is stored.
\<close>

theorem register_duplicate_email_400:
  assumes "username body = Some un" and "un \<noteq> []"
    and "email body = Some e" and "e \<noteq> []"
    and "password body = Some pw" and "pw \<noteq> []"
    and "findOne_email db e = Inr (Some u)"
  shows "register db bc body = (Send 400 (obj [(''message'', JStr email_used)]), None)"
  using assms by (simp add: register_def register_try_def message_def)


section \<open>The theorems at sample inputs\<close>

theorem put_shallow_merge_witness:
  "put_pokemon True ''25'' french_name pokedex =
     (Send 200 (obj [(''message'', JStr msg_updated), (''pokemon'', spread pikachu french_name)]),
      \<lparr>pokemonsList = [bulbasaur, spread pikachu french_name],
       pokemons_json = JArr [bulbasaur, spread pikachu french_name]\<rparr>)
   \<and> fmlookup (own_props (spread pikachu french_name)) ''name''
       = Some (obj [(''french'', JStr ''Pikachu'')])
   \<and> fmlookup (own_props (spread pikachu french_name)) ''type'' = Some (JArr [JStr ''Electric''])
   \<and> db_put_pokemon (\<lambda>n d. Inr (Some (spread pikachu d))) ''25'' french_name
       = Send 200 (obj [(''message'', JStr msg_updated), (''pokemon'', spread pikachu french_name)])"
proof -
  have h: "js_findIndex (id_loose (parseInt ''25'')) (pokemonsList pokedex) = Inr (Some 1)"
    by code_simp
  have p: "pokemonsList pokedex ! 1 = pikachu" by (simp add: pokedex_def)
  from put_shallow_merge [OF h, of french_name]
  obtain m where m: "pokemonsList pokedex ! 1 = JObj m"
    and put: "put_pokemon True ''25'' french_name pokedex =
       (Send 200 (obj [(''message'', JStr msg_updated), (''pokemon'', JObj (m ++\<^sub>f own_props french_name))]),
        pokedex\<lparr>pokemonsList := (pokemonsList pokedex)[1 := JObj (m ++\<^sub>f own_props french_name)],
          pokemons_json := JArr ((pokemonsList pokedex)[1 := JObj (m ++\<^sub>f own_props french_name)])\<rparr>)"
    and look: "\<forall>k. fmlookup (m ++\<^sub>f own_props french_name) k =
       (case fmlookup (own_props french_name) k of Some v \<Rightarrow> Some v | None \<Rightarrow> fmlookup m k)"
    and db: "\<forall>d f. f (parseInt ''25'') french_name = Inr (Some d) \<longrightarrow>
       db_put_pokemon f ''25'' french_name = Send 200 (obj [(''message'', JStr msg_updated), (''pokemon'', d)])"
    by blast
  have sp: "spread pikachu french_name = JObj (m ++\<^sub>f own_props french_name)"
    using m p by (simp add: spread_def pikachu_def obj_def)
  have 1: "put_pokemon True ''25'' french_name pokedex =
     (Send 200 (obj [(''message'', JStr msg_updated), (''pokemon'', spread pikachu french_name)]),
      \<lparr>pokemonsList = [bulbasaur, spread pikachu french_name],
       pokemons_json = JArr [bulbasaur, spread pikachu french_name]\<rparr>)"
    using put by (simp add: sp pokedex_def)
  have mm: "m = own_props pikachu" using m p by (simp add: pikachu_def obj_def)
  have 2: "fmlookup (own_props (spread pikachu french_name)) ''name''
       = Some (obj [(''french'', JStr ''Pikachu'')])"
    using look [rule_format, of "''name''"] unfolding sp by (simp add: french_name_def obj_def)
  have 3: "fmlookup (own_props (spread pikachu french_name)) ''type'' = Some (JArr [JStr ''Electric''])"
    using look [rule_format, of "''type''"] unfolding sp
    by (simp add: mm french_name_def pikachu_def obj_def)
  have 4: "db_put_pokemon (\<lambda>n d. Inr (Some (spread pikachu d))) ''25'' french_name
       = Send 200 (obj [(''message'', JStr msg_updated), (''pokemon'', spread pikachu french_name)])"
    using db [rule_format, of "\<lambda>n d. Inr (Some (spread pikachu d))" "spread pikachu french_name"] by simp
  from 1 2 3 4 show ?thesis by blast
qed

theorem create_get_delete_get_witness:
  "get_pokemon ''151'' (snd (post_pokemon True mew pokedex)) = Send 200 mew
   \<and> get_pokemon ''151'' (snd (delete_pokemon True ''151'' (snd (post_pokemon True mew pokedex))))
       = Send 404 (obj [(''message'', JStr msg_not_found)])"
proof -
  have h1: "get_id mew = Inr (Some (JNum 151))" by code_simp
  have h2: "\<forall>p\<in>set (pokemonsList pokedex). p \<noteq> JNull \<and> get_id p \<noteq> Inr (Some (JNum 151))"
    by code_simp
  have s: "num_to_string 151 = ''151''" by code_simp
  show ?thesis using create_get_delete_get [OF h1 h2, of True True] by (simp add: s)
qed



theorem post_allows_duplicate_id_witness:
  "post_pokemon True pikachu pokedex =
     (Send 201 (obj [(''message'', JStr msg_added), (''pokemon'', pikachu)]),
      \<lparr>pokemonsList = [bulbasaur, pikachu, pikachu],
       pokemons_json = JArr [bulbasaur, pikachu, pikachu]\<rparr>)
   \<and> get_id ([bulbasaur, pikachu, pikachu] ! 1) = get_id ([bulbasaur, pikachu, pikachu] ! 2)"
proof -
  have h1: "1 < length (pokemonsList pokedex)" by (simp add: pokedex_def)
  have h2: "get_id (pokemonsList pokedex ! 1) = get_id pikachu" by (simp add: pokedex_def)
  show ?thesis using post_allows_duplicate_id [OF h1 h2] by (simp add: pokedex_def)
qed




theorem register_valid_request_201_witness:
  "register no_accounts some_bcrypt
     \<lparr>username = Some '' misty '', email = Some ''Mi@Sea.gg'', password = Some ''starmie1''\<rparr>
   = (Send 201 (obj [(''message'', JStr account_created),
                     (''user'', obj [(''id'', JStr ''65f1a2b3c4d5e6f708192a3b''),
                                     (''username'', JStr ''misty''),
                                     (''email'', JStr ''mi@sea.gg''),
                                     (''createdAt'', JStr ''2024-03-13T09:30:00.000Z'')])]),
      Some \<lparr>user_id = ''65f1a2b3c4d5e6f708192a3b'', user_username = ''misty'',
            user_email = ''mi@sea.gg'',
            user_password = ''$2a$10$N9qo8uLOickgx2ZMRZoMyestarmie1.......................'',
            user_createdAt = ''2024-03-13T09:30:00.000Z''\<rparr>)
   \<and> \<not> has_prop (obj [(''id'', JStr ''65f1a2b3c4d5e6f708192a3b''),
                       (''username'', JStr ''misty''),
                       (''email'', JStr ''mi@sea.gg''),
                       (''createdAt'', JStr ''2024-03-13T09:30:00.000Z'')]) ''password''"
proof -
  let ?body = "\<lparr>username = Some '' misty '', email = Some ''Mi@Sea.gg'',
      password = Some ''starmie1''\<rparr>"
  let ?h = "''$2a$10$N9qo8uLOickgx2ZMRZoMyestarmie1.......................''"
  have u: "new_User (fresh_id no_accounts) (date_now no_accounts) '' misty '' ''Mi@Sea.gg'' ?h
      = \<lparr>user_id = ''65f1a2b3c4d5e6f708192a3b'', user_username = ''misty'',
            user_email = ''mi@sea.gg'', user_password = ?h,
            user_createdAt = ''2024-03-13T09:30:00.000Z''\<rparr>"
    by code_simp
  have ur: "userResponse \<lparr>user_id = ''65f1a2b3c4d5e6f708192a3b'', user_username = ''misty'',
            user_email = ''mi@sea.gg'', user_password = ?h,
            user_createdAt = ''2024-03-13T09:30:00.000Z''\<rparr>
      = obj [(''id'', JStr ''65f1a2b3c4d5e6f708192a3b''), (''username'', JStr ''misty''),
             (''email'', JStr ''mi@sea.gg''),
             (''createdAt'', JStr ''2024-03-13T09:30:00.000Z'')]"
    by (simp add: userResponse_def)
  have h1: "username ?body = Some '' misty ''" by simp
  have h2: "email ?body = Some ''Mi@Sea.gg''" by simp
  have h3: "password ?body = Some ''starmie1''" by simp
  have h4: "findOne_email no_accounts ''Mi@Sea.gg'' = Inr None" by (simp add: no_accounts_def)
  have h5: "findOne_username no_accounts '' misty '' = Inr None" by (simp add: no_accounts_def)
  have h6: "6 \<le> length ''starmie1''" by simp
  have h7: "3 \<le> length (js_trim '' misty '')" by code_simp
  have h8: "rx_test email_rx (map to_lower (js_trim ''Mi@Sea.gg''))" by code_simp
  have h9: "genSalt some_bcrypt 10 = Inr ''$2a$10$N9qo8uLOickgx2ZMRZoMye''" by (simp add: some_bcrypt_def)
  have h10: "hash some_bcrypt ''starmie1'' ''$2a$10$N9qo8uLOickgx2ZMRZoMye'' = Inr ?h" by code_simp
  have h11: "6 \<le> length ?h" by simp
  have h12: "insert_user no_accounts (new_User (fresh_id no_accounts) (date_now no_accounts) '' misty ''
      ''Mi@Sea.gg'' ?h) = Inr ()"
    by (simp add: no_accounts_def)
  show ?thesis
    using register_valid_request_201 [OF h1 h2 h3 h4 h5 h6 h7 h8 h9 h10 h11 h12]
    unfolding u ur by blast
qed

theorem login_failures_same_response_witness:
  "login one_account some_bcrypt \<lparr>username = None, email = Some ''gary@pallet.town'', password = Some ''eevee''\<rparr>
     = Send 401 (obj [(''message'', JStr bad_credentials)])
   \<and> login one_account some_bcrypt \<lparr>username = None, email = Some ''ash@kanto.org'', password = Some ''raichu''\<rparr>
     = Send 401 (obj [(''message'', JStr bad_credentials)])"
proof -
  let ?b1 = "\<lparr>username = None, email = Some ''gary@pallet.town'', password = Some ''eevee''\<rparr>"
  let ?b2 = "\<lparr>username = None, email = Some ''ash@kanto.org'', password = Some ''raichu''\<rparr>"
  have a: "email ?b1 = Some ''gary@pallet.town''" "''gary@pallet.town'' \<noteq> []"
    "password ?b1 = Some ''eevee''" "''eevee'' \<noteq> []" by simp_all
  have b: "email ?b2 = Some ''ash@kanto.org''" "''ash@kanto.org'' \<noteq> []"
    "password ?b2 = Some ''raichu''" "''raichu'' \<noteq> []" by simp_all
  have c: "findOne_email one_account ''gary@pallet.town'' = Inr None" by code_simp
  have d: "findOne_email one_account ''ash@kanto.org'' = Inr (Some ash)" by code_simp
  have e: "compare some_bcrypt ''raichu'' (user_password ash) = Inr False" by code_simp
  show ?thesis by (rule login_failures_same_response [OF a b c d e])
qed

theorem register_duplicate_email_400_witness:
  "register one_account some_bcrypt
     \<lparr>username = Some ''ketchum'', email = Some ''ash@kanto.org'', password = Some ''pikachu1''\<rparr>
   = (Send 400 (obj [(''message'', JStr email_used)]), None)"
proof -
  let ?b = "\<lparr>username = Some ''ketchum'', email = Some ''ash@kanto.org'', password = Some ''pikachu1''\<rparr>"
  have a: "username ?b = Some ''ketchum''" "''ketchum'' \<noteq> []"
    "email ?b = Some ''ash@kanto.org''" "''ash@kanto.org'' \<noteq> []"
    "password ?b = Some ''pikachu1''" "''pikachu1'' \<noteq> []" by simp_all
  have f: "findOne_email one_account ''ash@kanto.org'' = Inr (Some ash)" by code_simp
  show ?thesis by (rule register_duplicate_email_400 [OF a f])
qed

end
